theory Spec2Isabelle
  imports Main
begin

section \<open>JavaScript values\<close>

text \<open>
  The manager is written in TypeScript, but its constructor options and the bodies it
  parses are typed \<^verbatim>\<open>any\<close>, so the values it handles are plain JavaScript values: the
  values of JSON and \<^verbatim>\<open>undefined\<close>. An object is the list of its own properties, each
  listed once. A number is given by its string conversion (\<^verbatim>\<open>42\<close>, \<^verbatim>\<open>0.5\<close>, \<^verbatim>\<open>1e+21\<close>,
  \<^verbatim>\<open>NaN\<close>), which names it up to the sign of zero; how a double is printed is not
  modelled.
\<close>

datatype jsval =
    JUndefined
  | JNull
  | JBool bool
  | JNum string
  | JStr string
  | JArr "jsval list"
  | JObj "(string \<times> jsval) list"

text \<open>
  Truthiness, as tested by \<^verbatim>\<open>if\<close>, \<^verbatim>\<open>!\<close>, \<^verbatim>\<open>&&\<close> and \<^verbatim>\<open>||\<close>. The falsy numbers are
  the zeros and \<^verbatim>\<open>NaN\<close>.
\<close>

fun truthy :: "jsval \<Rightarrow> bool" where
  "truthy JUndefined = False"
| "truthy JNull = False"
| "truthy (JBool b) = b"
| "truthy (JNum n) = (n \<noteq> ''0'' \<and> n \<noteq> ''NaN'')"
| "truthy (JStr s) = (s \<noteq> [])"
| "truthy (JArr xs) = True"
| "truthy (JObj kvs) = True"

text \<open>\<^verbatim>\<open>a || b\<close>\<close>

definition or_js :: "jsval \<Rightarrow> jsval \<Rightarrow> jsval" where
  "or_js a b = (if truthy a then a else b)"

text \<open>Thrown values: an error object with its class name and its message.\<close>

datatype exn = Exn (exn_name: string) (exn_message: string)

text \<open>Sequencing of evaluations that may throw.\<close>

definition thenE :: "exn + 'a \<Rightarrow> ('a \<Rightarrow> exn + 'b) \<Rightarrow> exn + 'b" where
  "thenE r f = (case r of Inl e \<Rightarrow> Inl e | Inr v \<Rightarrow> f v)"

text \<open>The results of a list of evaluations, or the first exception among them.\<close>

fun collect :: "(exn + 'a) list \<Rightarrow> exn + 'a list" where
  "collect [] = Inr []"
| "collect (r # rs) = thenE r (\<lambda>x. thenE (collect rs) (\<lambda>xs. Inr (x # xs)))"

fun join_strings :: "string \<Rightarrow> string list \<Rightarrow> string" where
  "join_strings sep [] = []"
| "join_strings sep [x] = x"
| "join_strings sep (x # y # ys) = x @ sep @ join_strings sep (y # ys)"

text \<open>
  \<^verbatim>\<open>String(v)\<close>. An array converts to the comma-join of its elements, where
  \<^verbatim>\<open>undefined\<close> and \<^verbatim>\<open>null\<close> elements give the empty string. A plain object converts
  through its \<^verbatim>\<open>toString\<close> method: the inherited one gives \<^verbatim>\<open>[object Object]\<close>; an own
  property of that name hides it and, being a value of the kinds above, is not callable,
  and the inherited \<^verbatim>\<open>valueOf\<close> (or an own one, not callable either) gives no primitive, so
  the conversion throws a \<^verbatim>\<open>TypeError\<close>.
\<close>

fun toString :: "jsval \<Rightarrow> exn + string" where
  "toString JUndefined = Inr ''undefined''"
| "toString JNull = Inr ''null''"
| "toString (JBool b) = Inr (if b then ''true'' else ''false'')"
| "toString (JNum n) = Inr n"
| "toString (JStr s) = Inr s"
| "toString (JArr xs) =
     thenE
       (collect (map (\<lambda>x. if x = JUndefined \<or> x = JNull then Inr [] else toString x) xs))
       (\<lambda>ss. Inr (join_strings '','' ss))"
| "toString (JObj kvs) =
     (if map_of kvs ''toString'' = None then Inr ''[object Object]''
      else Inl (Exn ''TypeError'' ''Cannot convert object to primitive value''))"

text \<open>\<^verbatim>\<open>Array.prototype.join(sep)\<close>\<close>

definition join :: "jsval list \<Rightarrow> string \<Rightarrow> exn + string" where
  "join xs sep =
     thenE
       (collect (map (\<lambda>x. if x = JUndefined \<or> x = JNull then Inr [] else toString x) xs))
       (\<lambda>ss. Inr (join_strings sep ss))"

text \<open>\<^verbatim>\<open>new Error(s)\<close> for a string \<^verbatim>\<open>s\<close>.\<close>

definition Error_of :: "string \<Rightarrow> exn" where
  "Error_of s = Exn ''Error'' s"

text \<open>
  \<^verbatim>\<open>new Error(v)\<close> for any value: the message is \<^verbatim>\<open>String(v)\<close>, and empty when \<^verbatim>\<open>v\<close> is
  \<^verbatim>\<open>undefined\<close>; when the conversion throws, so does the construction.
\<close>

definition new_Error :: "jsval \<Rightarrow> exn + exn" where
  "new_Error v =
     (if v = JUndefined then Inr (Error_of [])
      else thenE (toString v) (\<lambda>s. Inr (Error_of s)))"

text \<open>
  Property read \<^verbatim>\<open>v.k\<close> for the property names the manager reads (\<^verbatim>\<open>error\<close>,
  \<^verbatim>\<open>message\<close>): a \<^verbatim>\<open>TypeError\<close> on \<^verbatim>\<open>undefined\<close> and \<^verbatim>\<open>null\<close>, the own property of an
  object, and \<^verbatim>\<open>undefined\<close> on every other value.
\<close>

fun get_prop :: "jsval \<Rightarrow> string \<Rightarrow> exn + jsval" where
  "get_prop JUndefined k = Inl (Exn ''TypeError'' (''Cannot read properties of undefined''))"
| "get_prop JNull k = Inl (Exn ''TypeError'' (''Cannot read properties of null''))"
| "get_prop (JObj kvs) k = Inr (case map_of kvs k of Some v \<Rightarrow> v | None \<Rightarrow> JUndefined)"
| "get_prop v k = Inr JUndefined"

section \<open>Promises\<close>

datatype 'a promise_state = Pending | Fulfilled 'a | Rejected exn

text \<open>The promise of a callback that returned a value or threw.\<close>

definition settled :: "exn + 'a \<Rightarrow> 'a promise_state" where
  "settled r = (case r of Inl e \<Rightarrow> Rejected e | Inr v \<Rightarrow> Fulfilled v)"

text \<open>\<^verbatim>\<open>p.then(f)\<close> and \<^verbatim>\<open>p.catch(h)\<close>, where the callback's outcome is itself a promise.\<close>

definition then_p :: "'a promise_state \<Rightarrow> ('a \<Rightarrow> 'b promise_state) \<Rightarrow> 'b promise_state" where
  "then_p p f = (case p of Pending \<Rightarrow> Pending | Fulfilled v \<Rightarrow> f v | Rejected e \<Rightarrow> Rejected e)"

definition catch_p :: "'a promise_state \<Rightarrow> (exn \<Rightarrow> 'a promise_state) \<Rightarrow> 'a promise_state" where
  "catch_p p h = (case p of Pending \<Rightarrow> Pending | Fulfilled v \<Rightarrow> Fulfilled v | Rejected e \<Rightarrow> h e)"

section \<open>Parsing a fetch response\<close>

text \<open>
  A fetch \<^verbatim>\<open>Response\<close>: its status and the promise \<^verbatim>\<open>response.json()\<close> gives, which is
  rejected with a \<^verbatim>\<open>SyntaxError\<close> when the body is not JSON.
\<close>

record Response =
  status :: int
  json :: "jsval promise_state"

text \<open>
  The callback of \<^verbatim>\<open>parseResponse\<close> that receives the parsed body:
  \<^verbatim>\<open>
  if (response.status >= 200 && response.status < 300) {
      return json;
  } else {
    if (json && json.error && json.error.message) {
        throw new Error(json.error.message);
    } else if (json && json.error) {
        throw new Error(json.error);
    } else {
        throw new Error('Unknown error');
    }
  }
  \<close>
\<close>

definition json_and_error :: "jsval \<Rightarrow> exn + jsval" where
  "json_and_error j = (if truthy j then get_prop j ''error'' else Inr j)"

definition json_and_error_and_message :: "jsval \<Rightarrow> exn + jsval" where
  "json_and_error_and_message j =
     thenE (json_and_error j) (\<lambda>e. if truthy e then get_prop e ''message'' else Inr e)"

definition parsed_body :: "Response \<Rightarrow> jsval \<Rightarrow> exn + jsval" where
  "parsed_body response j =
     (if status response \<ge> 200 \<and> status response < 300 then Inr j
      else
        thenE (json_and_error_and_message j) (\<lambda>c1.
          if truthy c1 then
            thenE (get_prop j ''error'') (\<lambda>e.
              thenE (get_prop e ''message'') (\<lambda>m.
                thenE (new_Error m) (\<lambda>thrown. Inl thrown)))
          else
            thenE (json_and_error j) (\<lambda>c2.
              if truthy c2 then
                thenE (get_prop j ''error'') (\<lambda>e.
                  thenE (new_Error e) (\<lambda>thrown. Inl thrown))
              else Inl (Error_of ''Unknown error''))))"

definition parseResponse :: "Response \<Rightarrow> jsval promise_state" where
  "parseResponse response =
     then_p
       (catch_p (json response)
          (\<lambda>jsonParseError.
             Rejected (Error_of ''Unknown error. Could not parse error response'')))
       (\<lambda>j. settled (parsed_body response j))"

section \<open>Configuration and network\<close>

text \<open>
  The endpoints of the OIDC client library's \<^verbatim>\<open>AuthorizationServiceConfiguration\<close>; the
  user-info endpoint is optional there.
\<close>

record AuthorizationServiceConfiguration =
  authorizationEndpoint :: string
  revocationEndpoint :: string
  tokenEndpoint :: string
  userInfoEndpoint :: "string option"

definition BITSKI_USER_API_HOST :: string where
  "BITSKI_USER_API_HOST = ''https://www.bitski.com/v1''"

definition DEFAULT_CONFIGURATION :: AuthorizationServiceConfiguration where
  "DEFAULT_CONFIGURATION =
     \<lparr> authorizationEndpoint = ''https://account.bitski.com/oauth2/auth'',
       revocationEndpoint = [],
       tokenEndpoint = ''https://account.bitski.com/oauth2/token'',
       userInfoEndpoint = Some ''https://account.bitski.com/userinfo'' \<rparr>"

text \<open>
  A call of \<^verbatim>\<open>fetch(url, init)\<close>. The network is a parameter of the functions that
  use it: it maps a call to the promise of its response. A function that fetches returns
  its promise together with the calls it made, in order.
\<close>

record FetchCall =
  url :: string
  headers :: "(string \<times> string) list"
  fetch_method :: "string option"

text \<open>The request method of a call: \<^verbatim>\<open>GET\<close> unless the call names one.\<close>

definition effective_method :: "FetchCall \<Rightarrow> string" where
  "effective_method c = (case fetch_method c of None \<Rightarrow> ''GET'' | Some m \<Rightarrow> m)"

type_synonym network = "FetchCall \<Rightarrow> Response promise_state"

section \<open>The manager and the objects it shares\<close>

type_synonym addr = nat

datatype handler_class = PopupRequestHandler | RedirectRequestHandler

text \<open>
  A request handler object: its identity (from \<^verbatim>\<open>new\<close>), its class, and whether the
  manager's notifier has been set on it.
\<close>

record AuthorizationRequestHandler =
  handler_id :: nat
  handler_kind :: handler_class
  notifier_set :: bool

text \<open>
  The library's \<^verbatim>\<open>AuthorizationRequest\<close> as \<^verbatim>\<open>createAuthRequest\<close> constructs it: its
  identity, the fields of the JSON argument (\<^verbatim>\<open>state\<close> and \<^verbatim>\<open>extras\<close> are optional
  there), the crypto argument and the PKCE flag.
\<close>

record AuthorizationRequest =
  request_id :: nat
  client_id :: string
  redirect_uri :: string
  response_type :: string
  scope :: string
  state :: "string option"
  extras :: "(string \<times> string) list option"
  crypto :: "unit option"
  usePkce :: bool

record AuthorizationResponse =
  code :: string
  response_state :: string

record AuthorizationError =
  error :: string
  errorDescription :: "string option"

record TokenRequest =
  token_client_id :: string
  token_code :: "string option"
  grant_type :: string
  token_redirect_uri :: string
  refresh_token :: "string option"

text \<open>
  The token request handler belongs to the OIDC client library; it is a parameter of the
  functions that use it, and the token response is the JSON it carries.
\<close>

type_synonym TokenRequestHandler =
  "AuthorizationServiceConfiguration \<Rightarrow> TokenRequest \<Rightarrow> jsval promise_state"

text \<open>Constants of the OIDC client library.\<close>

definition RESPONSE_TYPE_CODE :: string where
  "RESPONSE_TYPE_CODE = ''code''"

definition GRANT_TYPE_AUTHORIZATION_CODE :: string where
  "GRANT_TYPE_AUTHORIZATION_CODE = ''authorization_code''"

definition GRANT_TYPE_REFRESH_TOKEN :: string where
  "GRANT_TYPE_REFRESH_TOKEN = ''refresh_token''"

text \<open>
  The constructor's \<^verbatim>\<open>options\<close> is untyped; the additional scopes are whatever value
  the caller passed (\<^verbatim>\<open>undefined\<close> when omitted).
\<close>

record Options =
  options_clientId :: string
  options_redirectUri :: string
  options_configuration :: "AuthorizationServiceConfiguration option"
  additionalScopes :: jsval

text \<open>
  The manager. \<^verbatim>\<open>scopes\<close> is a reference to an array, \<^verbatim>\<open>pendingResolver\<close> holds the
  \<^verbatim>\<open>fulfill\<close> and \<^verbatim>\<open>reject\<close> functions of one promise, named by that promise.
\<close>

record OAuthManager =
  configuration :: AuthorizationServiceConfiguration
  clientId :: string
  redirectUri :: string
  authHandler :: "AuthorizationRequestHandler option"
  pendingResolver :: "nat option"
  scopes :: addr

text \<open>
  What lives outside the manager: the arrays on the heap, the promises created by the
  sign-in functions, the counters of \<^verbatim>\<open>new\<close>, and the calls made so far to the
  resolvers and to the request handlers.
\<close>

record World =
  arrays :: "addr \<Rightarrow> jsval list"
  promises :: "nat \<Rightarrow> AuthorizationResponse promise_state"
  next_promise :: nat
  next_object :: nat
  resolver_calls :: "(nat \<times> AuthorizationResponse promise_state) list"
  performed ::
    "(AuthorizationRequestHandler \<times> AuthorizationServiceConfiguration \<times> AuthorizationRequest) list"
  completed :: "AuthorizationRequestHandler list"

text \<open>\<^verbatim>\<open>const DEFAULT_SCOPES = ['openid']\<close>: one array, allocated when the module loads.\<close>

definition DEFAULT_SCOPES :: addr where
  "DEFAULT_SCOPES = 0"

definition module_loaded :: World where
  "module_loaded =
     \<lparr> arrays = (\<lambda>a. [])(DEFAULT_SCOPES := [JStr ''openid'']),
       promises = (\<lambda>p. Pending),
       next_promise = 0,
       next_object = 0,
       resolver_calls = [],
       performed = [],
       completed = [] \<rparr>"

text \<open>
  The constructor:
  \<^verbatim>\<open>
  this.configuration = options.configuration || DEFAULT_CONFIGURATION;
  const additionalScopes = options.additionalScopes || ['offline'];
  this.scopes = DEFAULT_SCOPES;
  this.scopes.push(additionalScopes);
  \<close>
  The assignment copies the reference, so the push appends one element, the value of
  \<^verbatim>\<open>additionalScopes\<close>, to the module's array.
\<close>

definition new_OAuthManager :: "Options \<Rightarrow> World \<Rightarrow> OAuthManager \<times> World" where
  "new_OAuthManager options w =
     (let additional = or_js (additionalScopes options) (JArr [JStr ''offline''])
      in (\<lparr> configuration =
               (case options_configuration options of
                  Some c \<Rightarrow> c
                | None \<Rightarrow> DEFAULT_CONFIGURATION),
             clientId = options_clientId options,
             redirectUri = options_redirectUri options,
             authHandler = None,
             pendingResolver = None,
             scopes = DEFAULT_SCOPES \<rparr>,
          w\<lparr> arrays := (arrays w)(DEFAULT_SCOPES := arrays w DEFAULT_SCOPES @ [additional]) \<rparr>))"

text \<open>Several managers constructed one after the other; the last one is returned.\<close>

fun construct_all :: "Options list \<Rightarrow> World \<Rightarrow> World" where
  "construct_all [] w = w"
| "construct_all (options # rest) w = construct_all rest (snd (new_OAuthManager options w))"

subsection \<open>Promises and resolvers\<close>

text \<open>
  \<^verbatim>\<open>new Promise((fulfill, reject) => { this.pendingResolver = { fulfill, reject }; })\<close>
  creates a pending promise; the executor runs at once.
\<close>

definition new_promise :: "World \<Rightarrow> nat \<times> World" where
  "new_promise w =
     (next_promise w,
      w\<lparr> promises := (promises w)(next_promise w := Pending),
         next_promise := Suc (next_promise w) \<rparr>)"

text \<open>A resolver call settles its promise if it is pending, and does nothing otherwise.\<close>

definition resolve_with :: "nat \<Rightarrow> AuthorizationResponse promise_state \<Rightarrow> World \<Rightarrow> World" where
  "resolve_with p outcome w =
     w\<lparr> promises := (if promises w p = Pending then (promises w)(p := outcome) else promises w),
        resolver_calls := resolver_calls w @ [(p, outcome)] \<rparr>"

definition fulfill :: "nat \<Rightarrow> AuthorizationResponse \<Rightarrow> World \<Rightarrow> World" where
  "fulfill p response w = resolve_with p (Fulfilled response) w"

definition reject :: "nat \<Rightarrow> exn \<Rightarrow> World \<Rightarrow> World" where
  "reject p e w = resolve_with p (Rejected e) w"

definition didCompleteAuthorizationFlow ::
  "AuthorizationRequest \<Rightarrow> AuthorizationResponse option \<Rightarrow> AuthorizationError option \<Rightarrow>
     OAuthManager \<times> World \<Rightarrow> OAuthManager \<times> World" where
  "didCompleteAuthorizationFlow request response errorResponse mw =
     (case mw of (m, w) \<Rightarrow>
       (case pendingResolver m of
          None \<Rightarrow> (m, w)
        | Some p \<Rightarrow>
            (case response of
               Some r \<Rightarrow> (m\<lparr> pendingResolver := None \<rparr>, fulfill p r w)
             | None \<Rightarrow>
                 (case errorResponse of
                    Some e \<Rightarrow>
                      (m\<lparr> pendingResolver := None \<rparr>, reject p (Error_of (error e)) w)
                  | None \<Rightarrow> (m, w)))))"

subsection \<open>Requests\<close>

text \<open>
  \<^verbatim>\<open>createAuthRequest\<close>: the scope is joined while the argument of the constructor is
  evaluated, so when the join throws no request is constructed.
\<close>

definition createAuthRequest ::
  "OAuthManager \<Rightarrow> World \<Rightarrow> exn + AuthorizationRequest \<times> World" where
  "createAuthRequest m w =
     thenE (join (arrays w (scopes m)) '' '') (\<lambda>joined.
       Inr (\<lparr> request_id = next_object w,
               client_id = clientId m,
               redirect_uri = redirectUri m,
               response_type = RESPONSE_TYPE_CODE,
               scope = joined,
               state = None,
               extras = None,
               crypto = None,
               usePkce = False \<rparr>,
            w\<lparr> next_object := Suc (next_object w) \<rparr>))"

definition createRefreshTokenRequest :: "OAuthManager \<Rightarrow> string \<Rightarrow> TokenRequest" where
  "createRefreshTokenRequest m refreshToken =
     \<lparr> token_client_id = clientId m,
       token_code = None,
       grant_type = GRANT_TYPE_REFRESH_TOKEN,
       token_redirect_uri = redirectUri m,
       refresh_token = Some refreshToken \<rparr>"

definition createTokenRequest :: "OAuthManager \<Rightarrow> string \<Rightarrow> TokenRequest" where
  "createTokenRequest m c =
     \<lparr> token_client_id = clientId m,
       token_code = Some c,
       grant_type = GRANT_TYPE_AUTHORIZATION_CODE,
       token_redirect_uri = redirectUri m,
       refresh_token = None \<rparr>"

definition requestAccessToken ::
  "TokenRequestHandler \<Rightarrow> OAuthManager \<Rightarrow> string \<Rightarrow> jsval promise_state" where
  "requestAccessToken performTokenRequest m c =
     performTokenRequest (configuration m) (createTokenRequest m c)"

definition refreshAccessToken ::
  "TokenRequestHandler \<Rightarrow> OAuthManager \<Rightarrow> string \<Rightarrow> jsval promise_state" where
  "refreshAccessToken performTokenRequest m refreshToken =
     performTokenRequest (configuration m) (createRefreshTokenRequest m refreshToken)"

definition requestSignOut ::
  "network \<Rightarrow> OAuthManager \<Rightarrow> string \<Rightarrow> jsval promise_state \<times> FetchCall list" where
  "requestSignOut fetch m accessToken =
     (let call =
        \<lparr> url = BITSKI_USER_API_HOST @ ''/logout'',
          headers =
            [(''Accept'', ''application/json''),
             (''Authorization'', ''Bearer '' @ accessToken),
             (''Content-Type'', ''application/json'')],
          fetch_method = Some ''POST'' \<rparr>
      in (then_p (fetch call) parseResponse, [call]))"

text \<open>
  \<^verbatim>\<open>!userInfoEndpoint\<close> holds of a missing endpoint and of the empty string.
\<close>

definition requestUserInfo ::
  "network \<Rightarrow> OAuthManager \<Rightarrow> string \<Rightarrow> jsval promise_state \<times> FetchCall list" where
  "requestUserInfo fetch m accessToken =
     (case userInfoEndpoint (configuration m) of
        None \<Rightarrow> (Rejected (Error_of ''Could not find userinfo endpoint''), [])
      | Some endpoint \<Rightarrow>
          if endpoint = []
          then (Rejected (Error_of ''Could not find userinfo endpoint''), [])
          else
            (let call =
               \<lparr> url = endpoint,
                 headers =
                   [(''Accept'', ''application/json''),
                    (''Authorization'', ''Bearer '' @ accessToken)],
                 fetch_method = None \<rparr>
             in (then_p (then_p (fetch call) parseResponse) (\<lambda>parsed. Fulfilled parsed),
                 [call])))"

subsection \<open>Sign-in flows\<close>

definition new_handler :: "handler_class \<Rightarrow> World \<Rightarrow> AuthorizationRequestHandler \<times> World" where
  "new_handler k w =
     (\<lparr> handler_id = next_object w, handler_kind = k, notifier_set = False \<rparr>,
      w\<lparr> next_object := Suc (next_object w) \<rparr>)"

definition setAuthorizationNotifier :: "AuthorizationRequestHandler \<Rightarrow> AuthorizationRequestHandler" where
  "setAuthorizationNotifier h = h\<lparr> notifier_set := True \<rparr>"

text \<open>
  The handlers belong to the library and to the popup module. What the manager does with
  them is recorded: the request it asked a handler to perform, and the handler it asked to
  complete a stored request. A handler reports back later, if at all, through the notifier,
  which calls \<^verbatim>\<open>didCompleteAuthorizationFlow\<close>.
\<close>

definition performAuthorizationRequest ::
  "AuthorizationRequestHandler \<Rightarrow> AuthorizationServiceConfiguration \<Rightarrow> AuthorizationRequest \<Rightarrow>
     World \<Rightarrow> World" where
  "performAuthorizationRequest h c request w = w\<lparr> performed := performed w @ [(h, c, request)] \<rparr>"

definition completeAuthorizationRequestIfPossible ::
  "AuthorizationRequestHandler \<Rightarrow> World \<Rightarrow> World" where
  "completeAuthorizationRequestIfPossible h w = w\<lparr> completed := completed w @ [h] \<rparr>"

text \<open>
  Each flow returns the promise it created (by its number) with the new manager and
  world. \<^verbatim>\<open>signInRedirect\<close> returns that promise itself; \<^verbatim>\<open>signInPopup\<close> and
  \<^verbatim>\<open>redirectCallback\<close> return \<^verbatim>\<open>promise.then(...)\<close>, see \<open>then_requestAccessToken\<close>.
  The handler is a value here, so the notifier is set on it before it is stored in
  \<^verbatim>\<open>authHandler\<close>. A sign-in throws what \<^verbatim>\<open>createAuthRequest\<close> throws; the pending
  entry and the handler have been set by then, and no request is performed.
\<close>

definition signInPopup ::
  "OAuthManager \<times> World \<Rightarrow> (exn + nat) \<times> OAuthManager \<times> World" where
  "signInPopup mw =
     (case mw of (m, w) \<Rightarrow>
        (case new_promise w of (promise, w1) \<Rightarrow>
           (case new_handler PopupRequestHandler w1 of (handler, w2) \<Rightarrow>
              (let m1 = m\<lparr> pendingResolver := Some promise \<rparr>;
                   m2 = m1\<lparr> authHandler := Some (setAuthorizationNotifier handler) \<rparr>
               in (case createAuthRequest m2 w2 of
                     Inl thrown \<Rightarrow> (Inl thrown, m2, w2)
                   | Inr (request, w3) \<Rightarrow>
                       (Inr promise, m2,
                        performAuthorizationRequest (setAuthorizationNotifier handler)
                          (configuration m2) request w3))))))"

definition signInRedirect ::
  "OAuthManager \<times> World \<Rightarrow> (exn + nat) \<times> OAuthManager \<times> World" where
  "signInRedirect mw =
     (case mw of (m, w) \<Rightarrow>
        (case new_promise w of (promise, w1) \<Rightarrow>
           (case new_handler RedirectRequestHandler w1 of (handler, w2) \<Rightarrow>
              (let m1 = m\<lparr> pendingResolver := Some promise \<rparr>;
                   m2 = m1\<lparr> authHandler := Some (setAuthorizationNotifier handler) \<rparr>
               in (case createAuthRequest m2 w2 of
                     Inl thrown \<Rightarrow> (Inl thrown, m2, w2)
                   | Inr (request, w3) \<Rightarrow>
                       (Inr promise, m2,
                        performAuthorizationRequest (setAuthorizationNotifier handler)
                          (configuration m2) request w3))))))"

definition redirectCallback :: "OAuthManager \<times> World \<Rightarrow> nat \<times> OAuthManager \<times> World" where
  "redirectCallback mw =
     (case mw of (m, w) \<Rightarrow>
        (case new_promise w of (promise, w1) \<Rightarrow>
           (case new_handler RedirectRequestHandler w1 of (handler, w2) \<Rightarrow>
              (let m1 = m\<lparr> pendingResolver := Some promise \<rparr>;
                   m2 = m1\<lparr> authHandler := Some (setAuthorizationNotifier handler) \<rparr>
               in (promise, m2,
                   completeAuthorizationRequestIfPossible (setAuthorizationNotifier handler) w2)))))"

text \<open>
  \<^verbatim>\<open>promise.then((response) => this.requestAccessToken(response.code))\<close>, as a function
  of the state of \<^verbatim>\<open>promise\<close>.
\<close>

definition then_requestAccessToken ::
  "TokenRequestHandler \<Rightarrow> OAuthManager \<Rightarrow> AuthorizationResponse promise_state \<Rightarrow> jsval promise_state" where
  "then_requestAccessToken performTokenRequest m p =
     then_p p (\<lambda>response. requestAccessToken performTokenRequest m (code response))"

text \<open>
  What can happen to a manager: a call of one of its flows, or a notification from a
  handler.
\<close>

datatype call =
    SignInPopup
  | SignInRedirect
  | RedirectCallback
  | Notify AuthorizationRequest "AuthorizationResponse option" "AuthorizationError option"

fun exec :: "call \<Rightarrow> OAuthManager \<times> World \<Rightarrow> OAuthManager \<times> World" where
  "exec SignInPopup mw = snd (signInPopup mw)"
| "exec SignInRedirect mw = snd (signInRedirect mw)"
| "exec RedirectCallback mw = snd (redirectCallback mw)"
| "exec (Notify request response errorResponse) mw =
     didCompleteAuthorizationFlow request response errorResponse mw"

fun run :: "call list \<Rightarrow> OAuthManager \<times> World \<Rightarrow> OAuthManager \<times> World" where
  "run [] mw = mw"
| "run (c # cs) mw = run cs (exec c mw)"

section \<open>The callback type assumed from the window\<close>

datatype OAuthProviderIntegrationType = REDIRECT | POPUP | SILENT

text \<open>
  The window: its own identity, the window \<^verbatim>\<open>parent\<close> refers to (the window itself
  when it is not framed), and its opener, if any.
\<close>

record Window =
  window_id :: nat
  parent :: nat
  opener :: "nat option"

definition assumedCallbackType :: "Window \<Rightarrow> OAuthProviderIntegrationType" where
  "assumedCallbackType w =
     (if parent w \<noteq> window_id w then SILENT
      else if opener w \<noteq> None then POPUP
      else REDIRECT)"

text \<open>
  \<^verbatim>\<open>signInCallback\<close> hands \<^verbatim>\<open>authenticationIntegrationType || this.assumedCallbackType(window)\<close>
  and the url to the auth provider; the result here is that pair of arguments. The enum
  is declared in another module, so whether a member is truthy (a numeric member is
  falsy when it is 0) is a parameter.
\<close>

definition signInCallback ::
  "(OAuthProviderIntegrationType \<Rightarrow> bool) \<Rightarrow> Window \<Rightarrow> OAuthProviderIntegrationType option \<Rightarrow>
     string option \<Rightarrow> OAuthProviderIntegrationType \<times> string option" where
  "signInCallback member_truthy window authenticationIntegrationType callback_url =
     ((case authenticationIntegrationType of
         None \<Rightarrow> assumedCallbackType window
       | Some t \<Rightarrow> if member_truthy t then t else assumedCallbackType window),
      callback_url)"

section \<open>Notions used to state the properties\<close>

text \<open>
  The value a read of property \<open>k\<close> of \<open>v\<close> gives where the read does not throw:
  \<^verbatim>\<open>undefined\<close> unless \<open>v\<close> is an object with that property.
\<close>

definition field :: "jsval \<Rightarrow> string \<Rightarrow> jsval" where
  "field v k =
     (case v of
        JObj kvs \<Rightarrow> (case map_of kvs k of Some x \<Rightarrow> x | None \<Rightarrow> JUndefined)
      | _ \<Rightarrow> JUndefined)"

text \<open>
  The value the message of a failed reply is taken from: \<^verbatim>\<open>error.message\<close> when that is
  truthy, else \<^verbatim>\<open>error\<close> when that is truthy, else none.
\<close>

definition message_source :: "jsval \<Rightarrow> jsval option" where
  "message_source j =
     (if truthy (field (field j ''error'') ''message'')
      then Some (field (field j ''error'') ''message'')
      else if truthy (field j ''error'') then Some (field j ''error'')
      else None)"

text \<open>A scope value of the documented kind: a string, or an array of strings.\<close>

fun is_string :: "jsval \<Rightarrow> bool" where
  "is_string (JStr s) = True"
| "is_string v = False"

fun strings_only :: "jsval \<Rightarrow> bool" where
  "strings_only (JStr s) = True"
| "strings_only (JArr xs) = list_all is_string xs"
| "strings_only v = False"

text \<open>The requests handed to a handler between two worlds, oldest first.\<close>

definition requests_since :: "World \<Rightarrow> World \<Rightarrow> AuthorizationRequest list" where
  "requests_since w w' = map (\<lambda>x. snd (snd x)) (drop (length (performed w)) (performed w'))"

text \<open>Options that give a client id and a redirect URI and nothing else.\<close>

definition client_options :: Options where
  "client_options =
     \<lparr> options_clientId = ''client'',
       options_redirectUri = ''https://app.example/callback'',
       options_configuration = None,
       additionalScopes = JUndefined \<rparr>"

text \<open>The request a first sign-in with these options builds.\<close>

definition client_request :: AuthorizationRequest where
  "client_request =
     \<lparr> request_id = 1,
       client_id = ''client'',
       redirect_uri = ''https://app.example/callback'',
       response_type = ''code'',
       scope = ''openid offline'',
       state = None,
       extras = None,
       crypto = None,
       usePkce = False \<rparr>"

text \<open>The decimal digits of a status code.\<close>

fun show_nat :: "nat \<Rightarrow> string" where
  "show_nat n =
     (if n < 10 then [char_of (48 + n)]
      else show_nat (n div 10) @ [char_of (48 + n mod 10)])"

declare show_nat.simps [simp del]

definition show_int :: "int \<Rightarrow> string" where
  "show_int i = (if i < 0 then CHR ''-'' # show_nat (nat (- i)) else show_nat (nat i))"

text \<open>
  An instance of the token request handler, after the library's handler over fetch: it
  posts to the token endpoint, rejects a reply whose status is outside [200,300) with the
  status as message, and returns the body's JSON promise as it is otherwise.
\<close>

definition fetch_json_handler :: "network \<Rightarrow> TokenRequestHandler" where
  "fetch_json_handler fetch c request =
     then_p
       (fetch
          \<lparr> url = tokenEndpoint c,
            headers = [(''Content-Type'', ''application/x-www-form-urlencoded'')],
            fetch_method = Some ''POST'' \<rparr>)
       (\<lambda>response.
          if status response \<ge> 200 \<and> status response < 300 then json response
          else Rejected (Exn ''AppAuthError'' (show_int (status response))))"

section \<open>Properties\<close>

subsection \<open>The response-parsing routine\<close>

lemma get_prop_truthy: "truthy v \<Longrightarrow> get_prop v k = Inr (field v k)"
  by (cases v) (simp_all add: field_def)

lemma field_falsy: "\<not> truthy v \<Longrightarrow> field v k = JUndefined"
  by (cases v) (simp_all add: field_def)

lemma message_source_truthy: "message_source j = Some v \<Longrightarrow> truthy v"
  by (auto simp add: message_source_def split: if_splits)

lemma parsed_body_error:
  "\<not> (200 \<le> status r \<and> status r < 300) \<Longrightarrow>
   parsed_body r j =
     (case message_source j of
        None \<Rightarrow> Inl (Exn ''Error'' ''Unknown error'')
      | Some v \<Rightarrow> (case toString v of Inl t \<Rightarrow> Inl t | Inr s \<Rightarrow> Inl (Exn ''Error'' s)))"
proof (cases "truthy j")
  case False
  assume "\<not> (200 \<le> status r \<and> status r < 300)"
  with False show ?thesis
    by (simp add: parsed_body_def json_and_error_and_message_def json_and_error_def thenE_def
        field_falsy message_source_def Error_of_def)
next
  case True
  assume n: "\<not> (200 \<le> status r \<and> status r < 300)"
  show ?thesis
  proof (cases "truthy (field j ''error'')")
    case False
    with True n show ?thesis
      by (simp add: parsed_body_def json_and_error_and_message_def json_and_error_def thenE_def
          get_prop_truthy field_falsy message_source_def Error_of_def)
  next
    case e: True
    show ?thesis
    proof (cases "truthy (field (field j ''error'') ''message'')")
      case True
      then have "field (field j ''error'') ''message'' \<noteq> JUndefined" by auto
      with True e \<open>truthy j\<close> n show ?thesis
        by (simp add: parsed_body_def json_and_error_and_message_def json_and_error_def
            thenE_def get_prop_truthy message_source_def new_Error_def Error_of_def
            split: sum.splits)
    next
      case False
      from e have "field j ''error'' \<noteq> JUndefined" by auto
      with False e \<open>truthy j\<close> n show ?thesis
        by (simp add: parsed_body_def json_and_error_and_message_def json_and_error_def
            thenE_def get_prop_truthy message_source_def new_Error_def Error_of_def
            split: sum.splits)
    qed
  qed
qed

lemma parseResponse_error_path:
  "json r = Fulfilled j \<Longrightarrow> \<not> (200 \<le> status r \<and> status r < 300) \<Longrightarrow>
   parseResponse r =
     (case message_source j of
        None \<Rightarrow> Rejected (Exn ''Error'' ''Unknown error'')
      | Some v \<Rightarrow>
          (case toString v of Inl t \<Rightarrow> Rejected t | Inr s \<Rightarrow> Rejected (Exn ''Error'' s)))"
  by (simp add: parseResponse_def then_p_def catch_p_def settled_def parsed_body_error
      split: option.splits sum.splits)

lemma collect_strings:
  "collect (map (\<lambda>x. if x = JUndefined \<or> x = JNull then Inr [] else toString x) (map JStr ss)) =
     Inr ss"
  by (induction ss) (simp_all add: thenE_def)

lemma toString_strings: "toString (JArr (map JStr ss)) = Inr (join_strings '','' ss)"
  unfolding toString.simps collect_strings by (simp add: thenE_def)

text \<open>
  C5, as the code has it. For every response given to \<open>parseResponse\<close>: if the body does
  not parse as JSON the promise is rejected with the error
  \<^verbatim>\<open>Unknown error. Could not parse error response\<close>, never with the parse exception; if it
  parses and the status is in [200,300) the promise is fulfilled with the parsed body.
  Otherwise the value the message is taken from is \<^verbatim>\<open>error.message\<close> when that is truthy,
  else \<^verbatim>\<open>error\<close> when that is truthy (a missing property, \<^verbatim>\<open>null\<close>, \<^verbatim>\<open>false\<close>, 0 and the
  empty string count as absent), and the promise is rejected with \<^verbatim>\<open>Unknown error\<close> when
  there is none. The message is the string conversion of that value: a string itself, the
  digits of a number, \<^verbatim>\<open>true\<close>, \<^verbatim>\<open>[object Object]\<close> for an object, the comma-join for an
  array. Where the conversion throws, as for an object with a \<^verbatim>\<open>toString\<close> property of its
  own, the promise is rejected with that \<^verbatim>\<open>TypeError\<close> instead.
\<close>

theorem parseResponse_priority:
  "(json r = Rejected e \<longrightarrow>
      parseResponse r =
        Rejected (Exn ''Error'' ''Unknown error. Could not parse error response'')) \<and>
   (json r = Fulfilled j \<and> 200 \<le> status r \<and> status r < 300 \<longrightarrow>
      parseResponse r = Fulfilled j) \<and>
   (json r = Fulfilled j \<and> \<not> (200 \<le> status r \<and> status r < 300) \<longrightarrow>
      (message_source j = None \<longrightarrow>
         parseResponse r = Rejected (Exn ''Error'' ''Unknown error'')) \<and>
      (\<forall>s. message_source j = Some (JStr s) \<longrightarrow>
         parseResponse r = Rejected (Exn ''Error'' s)) \<and>
      (\<forall>n. message_source j = Some (JNum n) \<longrightarrow>
         parseResponse r = Rejected (Exn ''Error'' n)) \<and>
      (\<forall>b. message_source j = Some (JBool b) \<longrightarrow>
         parseResponse r = Rejected (Exn ''Error'' ''true'')) \<and>
      (\<forall>kvs. message_source j = Some (JObj kvs) \<and> map_of kvs ''toString'' = None \<longrightarrow>
         parseResponse r = Rejected (Exn ''Error'' ''[object Object]'')) \<and>
      (\<forall>kvs v. message_source j = Some (JObj kvs) \<and> map_of kvs ''toString'' = Some v \<longrightarrow>
         parseResponse r =
           Rejected (Exn ''TypeError'' ''Cannot convert object to primitive value'')) \<and>
      (\<forall>ss. message_source j = Some (JArr (map JStr ss)) \<longrightarrow>
         parseResponse r = Rejected (Exn ''Error'' (join_strings '','' ss))) \<and>
      (\<forall>xs. message_source j = Some (JArr xs) \<longrightarrow>
         parseResponse r =
           (case toString (JArr xs) of
              Inl t \<Rightarrow> Rejected t
            | Inr s \<Rightarrow> Rejected (Exn ''Error'' s))))"
proof (intro conjI impI allI)
  assume "json r = Rejected e"
  then show "parseResponse r =
      Rejected (Exn ''Error'' ''Unknown error. Could not parse error response'')"
    by (simp add: parseResponse_def then_p_def catch_p_def Error_of_def)
next
  assume "json r = Fulfilled j \<and> 200 \<le> status r \<and> status r < 300"
  then show "parseResponse r = Fulfilled j"
    by (simp add: parseResponse_def then_p_def catch_p_def parsed_body_def settled_def)
next
  assume "json r = Fulfilled j \<and> \<not> (200 \<le> status r \<and> status r < 300)"
    and "message_source j = None"
  then show "parseResponse r = Rejected (Exn ''Error'' ''Unknown error'')"
    by (simp add: parseResponse_error_path)
next
  fix s
  assume "json r = Fulfilled j \<and> \<not> (200 \<le> status r \<and> status r < 300)"
    and "message_source j = Some (JStr s)"
  then show "parseResponse r = Rejected (Exn ''Error'' s)"
    by (simp add: parseResponse_error_path)
next
  fix n
  assume "json r = Fulfilled j \<and> \<not> (200 \<le> status r \<and> status r < 300)"
    and "message_source j = Some (JNum n)"
  then show "parseResponse r = Rejected (Exn ''Error'' n)"
    by (simp add: parseResponse_error_path)
next
  fix b
  assume a: "json r = Fulfilled j \<and> \<not> (200 \<le> status r \<and> status r < 300)"
    and m: "message_source j = Some (JBool b)"
  from m have "b" using message_source_truthy by fastforce
  with a m show "parseResponse r = Rejected (Exn ''Error'' ''true'')"
    by (simp add: parseResponse_error_path)
next
  fix kvs
  assume "json r = Fulfilled j \<and> \<not> (200 \<le> status r \<and> status r < 300)"
    and "message_source j = Some (JObj kvs) \<and> map_of kvs ''toString'' = None"
  then show "parseResponse r = Rejected (Exn ''Error'' ''[object Object]'')"
    by (simp add: parseResponse_error_path)
next
  fix kvs v
  assume "json r = Fulfilled j \<and> \<not> (200 \<le> status r \<and> status r < 300)"
    and "message_source j = Some (JObj kvs) \<and> map_of kvs ''toString'' = Some v"
  then show "parseResponse r =
      Rejected (Exn ''TypeError'' ''Cannot convert object to primitive value'')"
    by (simp add: parseResponse_error_path)
next
  fix ss
  assume "json r = Fulfilled j \<and> \<not> (200 \<le> status r \<and> status r < 300)"
    and "message_source j = Some (JArr (map JStr ss))"
  then show "parseResponse r = Rejected (Exn ''Error'' (join_strings '','' ss))"
    by (simp add: parseResponse_error_path toString_strings del: toString.simps)
next
  fix xs
  assume "json r = Fulfilled j \<and> \<not> (200 \<le> status r \<and> status r < 300)"
    and "message_source j = Some (JArr xs)"
  then show "parseResponse r =
      (case toString (JArr xs) of Inl t \<Rightarrow> Rejected t | Inr s \<Rightarrow> Rejected (Exn ''Error'' s))"
    by (simp add: parseResponse_error_path del: toString.simps)
qed

theorem parseResponse_priority_witness:
  "parseResponse \<lparr> status = 204, json = Rejected (Exn ''SyntaxError'' ''Unexpected end of JSON input'') \<rparr> =
     Rejected (Exn ''Error'' ''Unknown error. Could not parse error response'') \<and>
   parseResponse \<lparr> status = 200, json = Fulfilled (JObj [(''sub'', JStr ''user'')]) \<rparr> =
     Fulfilled (JObj [(''sub'', JStr ''user'')]) \<and>
   parseResponse \<lparr> status = 400, json = Fulfilled (JObj [(''error'', JObj [(''message'', JStr ''invalid_grant'')])]) \<rparr> =
     Rejected (Exn ''Error'' ''invalid_grant'') \<and>
   parseResponse \<lparr> status = 401, json = Fulfilled (JObj [(''error'', JStr ''unauthorized'')]) \<rparr> =
     Rejected (Exn ''Error'' ''unauthorized'') \<and>
   parseResponse \<lparr> status = 403, json = Fulfilled (JObj [(''error'', JObj [(''code'', JNum ''7'')])]) \<rparr> =
     Rejected (Exn ''Error'' ''[object Object]'') \<and>
   parseResponse \<lparr> status = 404, json = Fulfilled (JObj [(''error'', JArr [JStr ''a'', JStr ''b''])]) \<rparr> =
     Rejected (Exn ''Error'' ''a,b'') \<and>
   parseResponse \<lparr> status = 409, json = Fulfilled (JObj [(''error'', JObj [(''message'', JNum ''42'')])]) \<rparr> =
     Rejected (Exn ''Error'' ''42'') \<and>
   parseResponse \<lparr> status = 410, json = Fulfilled (JObj [(''error'', JBool True)]) \<rparr> =
     Rejected (Exn ''Error'' ''true'') \<and>
   parseResponse \<lparr> status = 502, json = Fulfilled (JObj [(''error'', JObj [(''toString'', JNull)])]) \<rparr> =
     Rejected (Exn ''TypeError'' ''Cannot convert object to primitive value'') \<and>
   parseResponse \<lparr> status = 500, json = Fulfilled (JObj []) \<rparr> =
     Rejected (Exn ''Error'' ''Unknown error'')"
  using
    parseResponse_priority [of "\<lparr> status = 204, json = Rejected (Exn ''SyntaxError'' ''Unexpected end of JSON input'') \<rparr>" "Exn ''SyntaxError'' ''Unexpected end of JSON input''" JNull]
    parseResponse_priority [of "\<lparr> status = 200, json = Fulfilled (JObj [(''sub'', JStr ''user'')]) \<rparr>" "Exn [] []" "JObj [(''sub'', JStr ''user'')]"]
    parseResponse_priority [of "\<lparr> status = 400, json = Fulfilled (JObj [(''error'', JObj [(''message'', JStr ''invalid_grant'')])]) \<rparr>" "Exn [] []" "JObj [(''error'', JObj [(''message'', JStr ''invalid_grant'')])]"]
    parseResponse_priority [of "\<lparr> status = 401, json = Fulfilled (JObj [(''error'', JStr ''unauthorized'')]) \<rparr>" "Exn [] []" "JObj [(''error'', JStr ''unauthorized'')]"]
    parseResponse_priority [of "\<lparr> status = 403, json = Fulfilled (JObj [(''error'', JObj [(''code'', JNum ''7'')])]) \<rparr>" "Exn [] []" "JObj [(''error'', JObj [(''code'', JNum ''7'')])]"]
    parseResponse_priority [of "\<lparr> status = 404, json = Fulfilled (JObj [(''error'', JArr [JStr ''a'', JStr ''b''])]) \<rparr>" "Exn [] []" "JObj [(''error'', JArr [JStr ''a'', JStr ''b''])]"]
    parseResponse_priority [of "\<lparr> status = 409, json = Fulfilled (JObj [(''error'', JObj [(''message'', JNum ''42'')])]) \<rparr>" "Exn [] []" "JObj [(''error'', JObj [(''message'', JNum ''42'')])]"]
    parseResponse_priority [of "\<lparr> status = 410, json = Fulfilled (JObj [(''error'', JBool True)]) \<rparr>" "Exn [] []" "JObj [(''error'', JBool True)]"]
    parseResponse_priority [of "\<lparr> status = 502, json = Fulfilled (JObj [(''error'', JObj [(''toString'', JNull)])]) \<rparr>" "Exn [] []" "JObj [(''error'', JObj [(''toString'', JNull)])]"]
    parseResponse_priority [of "\<lparr> status = 500, json = Fulfilled (JObj []) \<rparr>" "Exn [] []" "JObj []"]
  by (auto simp add: field_def message_source_def thenE_def)

text \<open>
  C5 as stated fails. A reply of status 500 with body \<^verbatim>\<open>{error: {toString: "t"}}\<close> is
  rejected with a \<^verbatim>\<open>TypeError\<close>, not with a message taken from \<^verbatim>\<open>error\<close>: the error object
  cannot be converted to a string. And a reply of status 400 with body
  \<^verbatim>\<open>{error: {message: ""}}\<close>, where \<^verbatim>\<open>error.message\<close> is present and empty, is rejected with
  the message \<^verbatim>\<open>[object Object]\<close>.
\<close>

theorem parseResponse_message_not_from_error:
  "parseResponse
     \<lparr> status = 500, json = Fulfilled (JObj [(''error'', JObj [(''toString'', JStr ''t'')])]) \<rparr> =
     Rejected (Exn ''TypeError'' ''Cannot convert object to primitive value'') \<and>
   parseResponse
     \<lparr> status = 400, json = Fulfilled (JObj [(''error'', JObj [(''message'', JStr [])])]) \<rparr> =
     Rejected (Exn ''Error'' ''[object Object]'')"
  by (simp add: parseResponse_error_path message_source_def field_def)

subsection \<open>Token requests\<close>

text \<open>
  C6, as the code has it. The exchange of a code and the refresh of a token do not go
  through \<open>parseResponse\<close>: each returns the promise of the library's token request handler
  unchanged, for the request built from the client id, the redirect URI and the code or
  the refresh token. Sign-out does parse its reply with \<open>parseResponse\<close> (as the user-info
  request does, see C9).
\<close>

theorem token_requests_delegate:
  "requestAccessToken performTokenRequest m c =
     performTokenRequest (configuration m)
       \<lparr> token_client_id = clientId m, token_code = Some c,
         grant_type = ''authorization_code'', token_redirect_uri = redirectUri m,
         refresh_token = None \<rparr> \<and>
   refreshAccessToken performTokenRequest m refreshToken =
     performTokenRequest (configuration m)
       \<lparr> token_client_id = clientId m, token_code = None,
         grant_type = ''refresh_token'', token_redirect_uri = redirectUri m,
         refresh_token = Some refreshToken \<rparr> \<and>
   (\<exists>call. requestSignOut fetch m accessToken = (then_p (fetch call) parseResponse, [call]))"
  by (simp add: requestAccessToken_def refreshAccessToken_def createTokenRequest_def
      createRefreshTokenRequest_def GRANT_TYPE_AUTHORIZATION_CODE_def
      GRANT_TYPE_REFRESH_TOKEN_def requestSignOut_def Let_def)

text \<open>
  C6 as stated fails. With a token request handler that reports a reply outside [200,300)
  by its status, a reply of status 400 with body \<^verbatim>\<open>{error: {message: "invalid_grant"}}\<close>
  rejects the exchange with the message \<^verbatim>\<open>400\<close>, not \<^verbatim>\<open>invalid_grant\<close>; and a reply of
  status 200 whose body does not parse rejects it with the parse exception itself.
\<close>

theorem exchange_bypasses_parseResponse:
  "requestAccessToken
      (fetch_json_handler (\<lambda>c. Fulfilled
         \<lparr> status = 400,
           json = Fulfilled (JObj [(''error'', JObj [(''message'', JStr ''invalid_grant'')])]) \<rparr>))
      (fst (new_OAuthManager client_options module_loaded)) ''code'' =
     Rejected (Exn ''AppAuthError'' ''400'') \<and>
   requestAccessToken
      (fetch_json_handler (\<lambda>c. Fulfilled
         \<lparr> status = 200, json = Rejected (Exn ''SyntaxError'' ''Unexpected token'') \<rparr>))
      (fst (new_OAuthManager client_options module_loaded)) ''code'' =
     Rejected (Exn ''SyntaxError'' ''Unexpected token'')"
  by code_simp

subsection \<open>User info\<close>

text \<open>
  C9. When the configuration has no user-info endpoint (it is missing, or the empty
  string), \<open>requestUserInfo\<close> returns a rejected promise and makes no fetch call. Otherwise
  it makes exactly one call, a GET to the endpoint with the header
  \<^verbatim>\<open>Authorization: Bearer <token>\<close>, and its promise is the parsed reply.
\<close>

theorem requestUserInfo_endpoint:
  "(userInfoEndpoint (configuration m) = None \<or> userInfoEndpoint (configuration m) = Some [] \<longrightarrow>
      requestUserInfo fetch m accessToken =
        (Rejected (Exn ''Error'' ''Could not find userinfo endpoint''), [])) \<and>
   (userInfoEndpoint (configuration m) = Some endpoint \<and> endpoint \<noteq> [] \<longrightarrow>
      (\<exists>call.
         requestUserInfo fetch m accessToken = (then_p (fetch call) parseResponse, [call]) \<and>
         url call = endpoint \<and> effective_method call = ''GET'' \<and>
         map_of (headers call) ''Authorization'' = Some (''Bearer '' @ accessToken)))"
proof (intro conjI impI)
  assume "userInfoEndpoint (configuration m) = None \<or> userInfoEndpoint (configuration m) = Some []"
  then show "requestUserInfo fetch m accessToken =
        (Rejected (Exn ''Error'' ''Could not find userinfo endpoint''), [])"
    by (auto simp add: requestUserInfo_def Error_of_def)
next
  assume a: "userInfoEndpoint (configuration m) = Some endpoint \<and> endpoint \<noteq> []"
  have t: "\<And>p :: jsval promise_state. then_p p (\<lambda>parsed. Fulfilled parsed) = p"
    by (simp add: then_p_def split: promise_state.splits)
  from a show "\<exists>call.
         requestUserInfo fetch m accessToken = (then_p (fetch call) parseResponse, [call]) \<and>
         url call = endpoint \<and> effective_method call = ''GET'' \<and>
         map_of (headers call) ''Authorization'' = Some (''Bearer '' @ accessToken)"
    by (simp add: requestUserInfo_def Let_def t effective_method_def)
qed

theorem requestUserInfo_endpoint_witness:
  "requestUserInfo (\<lambda>c. Pending)
      (fst (new_OAuthManager
         (client_options\<lparr> options_configuration := Some (DEFAULT_CONFIGURATION\<lparr> userInfoEndpoint := None \<rparr>) \<rparr>)
         module_loaded)) ''token'' =
     (Rejected (Exn ''Error'' ''Could not find userinfo endpoint''), []) \<and>
   map url (snd (requestUserInfo (\<lambda>c. Pending) (fst (new_OAuthManager client_options module_loaded)) ''token'')) =
     [''https://account.bitski.com/userinfo'']"
  using
    requestUserInfo_endpoint [of "fst (new_OAuthManager
         (client_options\<lparr> options_configuration := Some (DEFAULT_CONFIGURATION\<lparr> userInfoEndpoint := None \<rparr>) \<rparr>)
         module_loaded)" "\<lambda>c. Pending" "''token''" "[]"]
    requestUserInfo_endpoint [of "fst (new_OAuthManager client_options module_loaded)" "\<lambda>c. Pending" "''token''"
       "''https://account.bitski.com/userinfo''"]
  by (auto simp add: new_OAuthManager_def client_options_def DEFAULT_CONFIGURATION_def Let_def)

subsection \<open>The assumed callback type\<close>

text \<open>
  C10. When \<open>signInCallback\<close> is called without a type, the type handed on is SILENT when
  the window's parent is not the window itself, whether or not it has an opener; else
  POPUP when the window has an opener; else REDIRECT.
\<close>

theorem assumedCallbackType_priority:
  "(parent w \<noteq> window_id w \<longrightarrow>
      signInCallback member_truthy w None callback_url = (SILENT, callback_url)) \<and>
   (parent w = window_id w \<and> opener w \<noteq> None \<longrightarrow>
      signInCallback member_truthy w None callback_url = (POPUP, callback_url)) \<and>
   (parent w = window_id w \<and> opener w = None \<longrightarrow>
      signInCallback member_truthy w None callback_url = (REDIRECT, callback_url))"
  by (simp add: signInCallback_def assumedCallbackType_def)

theorem assumedCallbackType_priority_witness:
  "signInCallback (\<lambda>t. True) \<lparr> window_id = 1, parent = 0, opener = Some 2 \<rparr> None None = (SILENT, None) \<and>
   signInCallback (\<lambda>t. True) \<lparr> window_id = 1, parent = 1, opener = Some 2 \<rparr> None None = (POPUP, None) \<and>
   signInCallback (\<lambda>t. True) \<lparr> window_id = 1, parent = 1, opener = None \<rparr> None None = (REDIRECT, None)"
  using
    assumedCallbackType_priority [of "\<lparr> window_id = 1, parent = 0, opener = Some 2 \<rparr>" "\<lambda>t. True" None]
    assumedCallbackType_priority [of "\<lparr> window_id = 1, parent = 1, opener = Some 2 \<rparr>" "\<lambda>t. True" None]
    assumedCallbackType_priority [of "\<lparr> window_id = 1, parent = 1, opener = None \<rparr>" "\<lambda>t. True" None]
  by simp

subsection \<open>Steps of the manager\<close>

lemmas flow_defs =
  signInPopup_def signInRedirect_def redirectCallback_def Let_def
  new_promise_def new_handler_def createAuthRequest_def performAuthorizationRequest_def
  completeAuthorizationRequestIfPossible_def setAuthorizationNotifier_def

lemmas notify_defs = didCompleteAuthorizationFlow_def fulfill_def reject_def resolve_with_def

lemma exec_arrays: "arrays (snd (exec c mw)) = arrays (snd mw)"
  by (cases c; cases mw)
    (simp_all add: flow_defs notify_defs thenE_def split: option.splits sum.splits)

lemma exec_scopes: "scopes (fst (exec c mw)) = scopes (fst mw)"
  by (cases c; cases mw)
    (simp_all add: flow_defs notify_defs thenE_def split: option.splits sum.splits)

lemma run_arrays: "arrays (snd (run cs mw)) = arrays (snd mw)"
  by (induction cs arbitrary: mw) (simp_all add: exec_arrays)

lemma run_scopes: "scopes (fst (run cs mw)) = scopes (fst mw)"
  by (induction cs arbitrary: mw) (simp_all add: exec_scopes)

text \<open>What one step adds to the log of performed requests.\<close>

lemma exec_performed:
  "\<exists>added. performed (snd (exec c mw)) = performed (snd mw) @ added \<and>
     next_object (snd mw) \<le> next_object (snd (exec c mw)) \<and>
     (\<forall>x \<in> set added.
        join (arrays (snd mw) (scopes (fst mw))) '' '' = Inr (scope (snd (snd x))) \<and>
        \<not> usePkce (snd (snd x)) \<and> extras (snd (snd x)) = None \<and> crypto (snd (snd x)) = None \<and>
        next_object (snd mw) \<le> request_id (snd (snd x)) \<and>
        request_id (snd (snd x)) < next_object (snd (exec c mw))) \<and>
     length added \<le> 1"
proof (cases mw)
  case (Pair m w)
  show ?thesis
  proof (cases "join (arrays w (scopes m)) '' ''")
    case (Inl t)
    with Pair show ?thesis
      by (cases c) (simp_all add: flow_defs notify_defs thenE_def split: option.splits)
  next
    case (Inr joined)
    with Pair show ?thesis
      by (cases c) (simp_all add: flow_defs notify_defs thenE_def split: option.splits)
  qed
qed

lemma run_performed:
  "\<exists>added. performed (snd (run cs mw)) = performed (snd mw) @ added \<and>
     next_object (snd mw) \<le> next_object (snd (run cs mw)) \<and>
     (\<forall>x \<in> set added.
        join (arrays (snd mw) (scopes (fst mw))) '' '' = Inr (scope (snd (snd x))) \<and>
        \<not> usePkce (snd (snd x)) \<and> extras (snd (snd x)) = None \<and> crypto (snd (snd x)) = None \<and>
        next_object (snd mw) \<le> request_id (snd (snd x)) \<and>
        request_id (snd (snd x)) < next_object (snd (run cs mw))) \<and>
     distinct (map (\<lambda>x. request_id (snd (snd x))) added)"
proof (induction cs arbitrary: mw)
  case Nil
  show ?case by simp
next
  case (Cons c cs)
  obtain a1 where a1:
    "performed (snd (exec c mw)) = performed (snd mw) @ a1"
    "next_object (snd mw) \<le> next_object (snd (exec c mw))"
    "\<forall>x \<in> set a1.
        join (arrays (snd mw) (scopes (fst mw))) '' '' = Inr (scope (snd (snd x))) \<and>
        \<not> usePkce (snd (snd x)) \<and> extras (snd (snd x)) = None \<and> crypto (snd (snd x)) = None \<and>
        next_object (snd mw) \<le> request_id (snd (snd x)) \<and>
        request_id (snd (snd x)) < next_object (snd (exec c mw))"
    "length a1 \<le> 1"
    using exec_performed [of c mw] by blast
  obtain a2 where a2:
    "performed (snd (run cs (exec c mw))) = performed (snd (exec c mw)) @ a2"
    "next_object (snd (exec c mw)) \<le> next_object (snd (run cs (exec c mw)))"
    "\<forall>x \<in> set a2.
        join (arrays (snd (exec c mw)) (scopes (fst (exec c mw)))) '' '' =
          Inr (scope (snd (snd x))) \<and>
        \<not> usePkce (snd (snd x)) \<and> extras (snd (snd x)) = None \<and> crypto (snd (snd x)) = None \<and>
        next_object (snd (exec c mw)) \<le> request_id (snd (snd x)) \<and>
        request_id (snd (snd x)) < next_object (snd (run cs (exec c mw)))"
    "distinct (map (\<lambda>x. request_id (snd (snd x))) a2)"
    using Cons.IH [of "exec c mw"] by blast
  have d1: "distinct (map (\<lambda>x. request_id (snd (snd x))) a1)"
    using a1(4) by (cases a1) simp_all
  have disj: "\<forall>x \<in> set a1. \<forall>y \<in> set a2. request_id (snd (snd x)) \<noteq> request_id (snd (snd y))"
    using a1(3) a2(3) by fastforce
  have "performed (snd (run (c # cs) mw)) = performed (snd mw) @ (a1 @ a2)"
    using a1(1) a2(1) by simp
  moreover have "next_object (snd mw) \<le> next_object (snd (run (c # cs) mw))"
    using a1(2) a2(2) by simp
  moreover have "\<forall>x \<in> set (a1 @ a2).
        join (arrays (snd mw) (scopes (fst mw))) '' '' = Inr (scope (snd (snd x))) \<and>
        \<not> usePkce (snd (snd x)) \<and> extras (snd (snd x)) = None \<and> crypto (snd (snd x)) = None \<and>
        next_object (snd mw) \<le> request_id (snd (snd x)) \<and>
        request_id (snd (snd x)) < next_object (snd (run (c # cs) mw))"
    using a1(2,3) a2(2,3) by (fastforce simp add: exec_arrays exec_scopes)
  moreover have "distinct (map (\<lambda>x. request_id (snd (snd x))) (a1 @ a2))"
    using d1 a2(4) disj by auto
  ultimately show ?case by blast
qed

text \<open>
  What a sign-in does to the manager and the world, whether it returns its promise or
  throws.
\<close>

lemma sign_in_effect:
  "flow \<in> {signInPopup, signInRedirect} \<Longrightarrow> flow (m, w) = (r, m', w') \<Longrightarrow>
   (r = Inr (next_promise w) \<or> (\<exists>t. r = Inl t)) \<and>
   pendingResolver m' = Some (next_promise w) \<and>
   promises w' = (promises w)(next_promise w := Pending) \<and>
   next_promise w' = Suc (next_promise w) \<and>
   resolver_calls w' = resolver_calls w \<and>
   (\<exists>h. authHandler m' = Some h \<and> handler_id h = next_object w \<and> notifier_set h) \<and>
   next_object w < next_object w'"
  by (cases "join (arrays w (scopes m)) '' ''") (auto simp add: flow_defs thenE_def)

lemma didComplete_settles:
  "pendingResolver m = Some p \<Longrightarrow> response \<noteq> None \<or> errorResponse \<noteq> None \<Longrightarrow>
   didCompleteAuthorizationFlow request response errorResponse (m, w) = (m', w') \<Longrightarrow>
   pendingResolver m' = None \<and>
   (\<exists>outcome. outcome \<noteq> Pending \<and>
      promises w' = (if promises w p = Pending then (promises w)(p := outcome) else promises w) \<and>
      resolver_calls w' = resolver_calls w @ [(p, outcome)])"
  by (cases response; cases errorResponse) (auto simp add: notify_defs)

lemma requests_since_run:
  "performed w' = performed w @ added \<Longrightarrow> requests_since w w' = map (\<lambda>x. snd (snd x)) added"
  by (simp add: requests_since_def)

subsection \<open>Completion of a flow\<close>

text \<open>
  C2. When \<open>didCompleteAuthorizationFlow\<close> is called with a response or an error while a
  pending entry is present, it calls the entry's resolver once and clears the entry; a
  second call, whatever it carries, changes nothing. So the resolver of the pending promise
  is called exactly once over the two calls, and the promise, if it was pending, has the
  outcome of the first call.
\<close>

theorem didComplete_twice:
  "pendingResolver m = Some p \<Longrightarrow> response \<noteq> None \<or> errorResponse \<noteq> None \<Longrightarrow>
   (let mw1 = didCompleteAuthorizationFlow request response errorResponse (m, w);
        mw2 = didCompleteAuthorizationFlow request2 response2 errorResponse2 mw1
    in pendingResolver (fst mw1) = None \<and> mw2 = mw1 \<and>
       (\<exists>outcome. outcome \<noteq> Pending \<and>
          resolver_calls (snd mw2) = resolver_calls w @ [(p, outcome)] \<and>
          (promises w p = Pending \<longrightarrow> promises (snd mw2) p = outcome)))"
  by (cases response; cases errorResponse) (simp_all add: notify_defs Let_def)

theorem didComplete_twice_witness:
  "(case signInPopup (new_OAuthManager client_options module_loaded) of (r, m, w) \<Rightarrow>
      r = Inr 0 \<and> pendingResolver m = Some 0 \<and>
      (let mw1 = didCompleteAuthorizationFlow client_request
                   (Some \<lparr> code = ''abc'', response_state = ''s'' \<rparr>) None (m, w);
           mw2 = didCompleteAuthorizationFlow client_request
                   (Some \<lparr> code = ''xyz'', response_state = ''s'' \<rparr>) None mw1
       in pendingResolver (fst mw1) = None \<and> mw2 = mw1 \<and>
          resolver_calls (snd mw2) = [(0, Fulfilled \<lparr> code = ''abc'', response_state = ''s'' \<rparr>)] \<and>
          promises (snd mw2) 0 = Fulfilled \<lparr> code = ''abc'', response_state = ''s'' \<rparr>))"
proof -
  obtain r m w where s: "signInPopup (new_OAuthManager client_options module_loaded) = (r, m, w)"
    by (cases "signInPopup (new_OAuthManager client_options module_loaded)") auto
  have f: "signInPopup \<in> {signInPopup, signInRedirect}" by simp
  have s': "signInPopup (fst (new_OAuthManager client_options module_loaded),
      snd (new_OAuthManager client_options module_loaded)) = (r, m, w)"
    using s by simp
  note e = sign_in_effect [OF f s']
  have n: "next_promise (snd (new_OAuthManager client_options module_loaded)) = 0"
    "resolver_calls (snd (new_OAuthManager client_options module_loaded)) = []"
    by (simp_all add: new_OAuthManager_def module_loaded_def Let_def)
  have pr: "pendingResolver m = Some 0"
    using e n by simp
  have pend: "promises w 0 = Pending" "resolver_calls w = []"
    using e n by simp_all
  have r: "r = Inr 0"
    using s by (simp add: flow_defs new_OAuthManager_def module_loaded_def client_options_def
        join_def or_js_def DEFAULT_SCOPES_def thenE_def)
  have nn: "Some \<lparr> code = ''abc'', response_state = ''s'' \<rparr> \<noteq> None \<or> (None :: AuthorizationError option) \<noteq> None"
    by simp
  show ?thesis
    using didComplete_twice [OF pr nn, of client_request w client_request
        "Some \<lparr> code = ''xyz'', response_state = ''s'' \<rparr>" None] pr pend s r
    by (simp add: notify_defs Let_def)
qed

text \<open>
  C3, as the code has it. \<open>redirectCallback\<close> creates a pending promise, makes it the
  pending entry, and asks a new redirect handler, with the notifier set, to complete a
  stored request if possible; it performs no request and calls no resolver. The promise it
  returns is pending then. It settles only on a notification: one with a response gives
  the promise of the token exchange for the response's code, one with an error and no
  response rejects it with an \<^verbatim>\<open>Error\<close> whose message is the error's \<^verbatim>\<open>error\<close> field, and
  one with neither changes nothing.
\<close>

theorem redirectCallback_settles_on_notification:
  "redirectCallback mw = (p, m, w) \<Longrightarrow>
   promises w p = Pending \<and> pendingResolver m = Some p \<and>
   (\<exists>h. authHandler m = Some h \<and> handler_kind h = RedirectRequestHandler \<and> notifier_set h \<and>
        completed w = completed (snd mw) @ [h]) \<and>
   performed w = performed (snd mw) \<and>
   resolver_calls w = resolver_calls (snd mw) \<and>
   then_requestAccessToken performTokenRequest m (promises w p) = Pending \<and>
   (case didCompleteAuthorizationFlow request (Some r) errorResponse (m, w) of (m', w') \<Rightarrow>
      then_requestAccessToken performTokenRequest m' (promises w' p) =
        requestAccessToken performTokenRequest m (code r)) \<and>
   (case didCompleteAuthorizationFlow request None (Some e) (m, w) of (m', w') \<Rightarrow>
      then_requestAccessToken performTokenRequest m' (promises w' p) =
        Rejected (Exn ''Error'' (error e))) \<and>
   didCompleteAuthorizationFlow request None None (m, w) = (m, w)"
  by (cases mw)
    (auto simp add: flow_defs notify_defs then_requestAccessToken_def then_p_def
       requestAccessToken_def createTokenRequest_def Error_of_def)

theorem redirectCallback_settles_on_notification_witness:
  "(case redirectCallback (new_OAuthManager client_options module_loaded) of (p, m, w) \<Rightarrow>
     (case didCompleteAuthorizationFlow client_request None
             (Some \<lparr> error = ''access_denied'', errorDescription = None \<rparr>) (m, w) of (m', w') \<Rightarrow>
        then_requestAccessToken (fetch_json_handler (\<lambda>c. Pending)) m' (promises w' p) =
          Rejected (Exn ''Error'' ''access_denied'')))"
proof -
  obtain p m w where s: "redirectCallback (new_OAuthManager client_options module_loaded) = (p, m, w)"
    by (cases "redirectCallback (new_OAuthManager client_options module_loaded)") auto
  show ?thesis
    using redirectCallback_settles_on_notification [OF s, where performTokenRequest = "fetch_json_handler (\<lambda>c. Pending)"
        and request = client_request
        and e = "\<lparr> error = ''access_denied'', errorDescription = None \<rparr>"] s
    by simp
qed

text \<open>
  C3 as stated fails: the manager has no rejection of its own for a missing response.
  After \<open>redirectCallback\<close> on a new manager, when the handler has nothing to deliver, and
  also after a notification that carries neither a response nor an error, the promise is
  pending, the entry is in place and no resolver has been called.
\<close>

theorem redirectCallback_stays_pending:
  "(case redirectCallback (new_OAuthManager client_options module_loaded) of (p, m, w) \<Rightarrow>
      promises w p = Pending \<and> pendingResolver m = Some p \<and> resolver_calls w = [] \<and>
      then_requestAccessToken (fetch_json_handler (\<lambda>c. Pending)) m (promises w p) = Pending \<and>
      (case didCompleteAuthorizationFlow client_request None None (m, w) of
         (m', w') \<Rightarrow> promises w' p = Pending))"
  by (simp add: flow_defs notify_defs new_OAuthManager_def module_loaded_def
      then_requestAccessToken_def then_p_def)

text \<open>
  C4. When a second sign-in (popup or redirect) follows a first one whose promise is still
  pending, the pending entry becomes the second promise and the handler a new one, with the
  notifier set. A notification with a response or an error then settles the second promise
  and clears the entry; the first promise stays pending, and the only resolver call is the
  one on the second promise. Here \<open>p1\<close> and \<open>p2\<close> are the promises the two calls create:
  a call that returns gives its caller that promise, and a call that throws in
  \<^verbatim>\<open>createAuthRequest\<close> has replaced the entry and the handler all the same.
\<close>

theorem second_sign_in_supersedes:
  "first \<in> {signInPopup, signInRedirect} \<Longrightarrow> second \<in> {signInPopup, signInRedirect} \<Longrightarrow>
   first mw = (r1, mw1) \<Longrightarrow> second mw1 = (r2, m2, w2) \<Longrightarrow>
   p1 = next_promise (snd mw) \<Longrightarrow> p2 = next_promise (snd mw1) \<Longrightarrow>
   response \<noteq> None \<or> errorResponse \<noteq> None \<Longrightarrow>
   didCompleteAuthorizationFlow request response errorResponse (m2, w2) = (m3, w3) \<Longrightarrow>
   (r1 = Inr p1 \<or> (\<exists>t. r1 = Inl t)) \<and> (r2 = Inr p2 \<or> (\<exists>t. r2 = Inl t)) \<and>
   p1 \<noteq> p2 \<and> pendingResolver (fst mw1) = Some p1 \<and> promises (snd mw1) p1 = Pending \<and>
   pendingResolver m2 = Some p2 \<and>
   (\<exists>h1 h2. authHandler (fst mw1) = Some h1 \<and> authHandler m2 = Some h2 \<and>
      handler_id h1 \<noteq> handler_id h2 \<and> notifier_set h2) \<and>
   promises w2 p1 = Pending \<and> promises w2 p2 = Pending \<and>
   promises w3 p1 = Pending \<and> promises w3 p2 \<noteq> Pending \<and>
   pendingResolver m3 = None \<and>
   resolver_calls w3 = resolver_calls (snd mw) @ [(p2, promises w3 p2)]"
proof -
  assume f: "first \<in> {signInPopup, signInRedirect}"
    and g: "second \<in> {signInPopup, signInRedirect}"
    and f1: "first mw = (r1, mw1)" and g1: "second mw1 = (r2, m2, w2)"
    and p1: "p1 = next_promise (snd mw)" and p2: "p2 = next_promise (snd mw1)"
    and r: "response \<noteq> None \<or> errorResponse \<noteq> None"
    and d: "didCompleteAuthorizationFlow request response errorResponse (m2, w2) = (m3, w3)"
  obtain m w where mw: "mw = (m, w)" by (cases mw)
  obtain m1 w1 where mw1: "mw1 = (m1, w1)" by (cases mw1)
  have "first (m, w) = (r1, m1, w1)"
    using f1 mw mw1 by simp
  note e1 = sign_in_effect [OF f this]
  have "second (m1, w1) = (r2, m2, w2)"
    using g1 mw1 by simp
  note e2 = sign_in_effect [OF g this]
  have q1: "p1 = next_promise w" and q2: "p2 = next_promise w1"
    using p1 p2 mw mw1 by simp_all
  from e2 have "pendingResolver m2 = Some p2" using q2 by simp
  note e3 = didComplete_settles [OF this r d]
  from e3 obtain outcome where o: "outcome \<noteq> Pending"
      "promises w3 = (if promises w2 p2 = Pending then (promises w2)(p2 := outcome) else promises w2)"
      "resolver_calls w3 = resolver_calls w2 @ [(p2, outcome)]"
    by blast
  have ne: "p1 \<noteq> p2" using e1 e2 q1 q2 by simp
  have a: "promises w2 p1 = Pending" "promises w2 p2 = Pending" "promises w1 p1 = Pending"
    using e1 e2 q1 q2 by simp_all
  have b: "promises w3 p1 = Pending" "promises w3 p2 = outcome"
    using o(2) a ne by simp_all
  have h: "\<exists>h1 h2. authHandler m1 = Some h1 \<and> authHandler m2 = Some h2 \<and>
      handler_id h1 \<noteq> handler_id h2 \<and> notifier_set h2"
    using e1 e2 by auto
  have c: "resolver_calls w3 = resolver_calls w @ [(p2, promises w3 p2)]"
    using o(3) b e1 e2 by simp
  have rr: "(r1 = Inr p1 \<or> (\<exists>t. r1 = Inl t))" "(r2 = Inr p2 \<or> (\<exists>t. r2 = Inl t))"
    using e1 e2 q1 q2 by simp_all
  show ?thesis
    using rr ne a b h c o(1) e1 e2 e3 q1 q2 mw mw1 by simp
qed

theorem second_sign_in_supersedes_witness:
  "(case signInPopup (new_OAuthManager client_options module_loaded) of (r1, mw1) \<Rightarrow>
     (case signInRedirect mw1 of (r2, m2, w2) \<Rightarrow>
       (case didCompleteAuthorizationFlow client_request
               (Some \<lparr> code = ''abc'', response_state = ''s'' \<rparr>) None (m2, w2) of (m3, w3) \<Rightarrow>
          r1 = Inr 0 \<and> r2 = Inr 1 \<and> promises w3 0 = Pending \<and>
          promises w3 1 = Fulfilled \<lparr> code = ''abc'', response_state = ''s'' \<rparr> \<and>
          resolver_calls w3 = [(1, Fulfilled \<lparr> code = ''abc'', response_state = ''s'' \<rparr>)])))"
proof -
  obtain r1 mw1 where a: "signInPopup (new_OAuthManager client_options module_loaded) = (r1, mw1)"
    by (cases "signInPopup (new_OAuthManager client_options module_loaded)") auto
  obtain r2 m2 w2 where b: "signInRedirect mw1 = (r2, m2, w2)"
    by (cases "signInRedirect mw1") auto
  obtain m3 w3 where c: "didCompleteAuthorizationFlow client_request
               (Some \<lparr> code = ''abc'', response_state = ''s'' \<rparr>) None (m2, w2) = (m3, w3)"
    by (cases "didCompleteAuthorizationFlow client_request
               (Some \<lparr> code = ''abc'', response_state = ''s'' \<rparr>) None (m2, w2)") auto
  have f: "signInPopup \<in> {signInPopup, signInRedirect}" by simp
  have g: "signInRedirect \<in> {signInPopup, signInRedirect}" by simp
  have r: "Some \<lparr> code = ''abc'', response_state = ''s'' \<rparr> \<noteq> None \<or>
      (None :: AuthorizationError option) \<noteq> None" by simp
  have n0: "next_promise (snd (new_OAuthManager client_options module_loaded)) = 0" "resolver_calls (snd (new_OAuthManager client_options module_loaded)) = []"
    by (simp_all add: new_OAuthManager_def module_loaded_def Let_def)
  have a': "signInPopup (fst (new_OAuthManager client_options module_loaded), snd (new_OAuthManager client_options module_loaded)) = (r1, fst mw1, snd mw1)"
    using a by simp
  have n1: "next_promise (snd mw1) = 1"
    using sign_in_effect [OF f a'] n0 by simp
  have j0: "join (arrays (snd (new_OAuthManager client_options module_loaded)) (scopes (fst (new_OAuthManager client_options module_loaded)))) '' '' = Inr ''openid offline''"
    by (simp add: new_OAuthManager_def module_loaded_def client_options_def join_def or_js_def
        DEFAULT_SCOPES_def thenE_def Let_def)
  have r1: "r1 = Inr 0"
    using a j0 by (cases "new_OAuthManager client_options module_loaded") (auto simp add: flow_defs thenE_def module_loaded_def
        new_OAuthManager_def)
  have j1: "join (arrays (snd mw1) (scopes (fst mw1))) '' '' = Inr ''openid offline''"
    using j0 exec_arrays [of SignInPopup "new_OAuthManager client_options module_loaded"] exec_scopes [of SignInPopup "new_OAuthManager client_options module_loaded"] a by simp
  have r2: "r2 = Inr 1"
    using b n1 j1 by (cases mw1) (auto simp add: flow_defs thenE_def)
  note t = second_sign_in_supersedes [OF f g a b refl refl r c]
  have "promises w3 1 = Fulfilled \<lparr> code = ''abc'', response_state = ''s'' \<rparr>"
    using c t n1 by (auto simp add: notify_defs)
  then show ?thesis
    using t a b c r1 r2 n0 n1 by simp
qed

subsection \<open>Scopes\<close>

lemma new_OAuthManager_arrays:
  "arrays (snd (new_OAuthManager options w)) DEFAULT_SCOPES =
     arrays w DEFAULT_SCOPES @ [or_js (additionalScopes options) (JArr [JStr ''offline''])]"
  by (simp add: new_OAuthManager_def Let_def)

lemma construct_all_head:
  "arrays w DEFAULT_SCOPES = JStr ''openid'' # xs \<Longrightarrow>
   \<exists>ys. arrays (construct_all previous w) DEFAULT_SCOPES = JStr ''openid'' # ys"
  by (induction previous arbitrary: w xs) (simp_all add: new_OAuthManager_arrays)

lemma construct_all_strings:
  "list_all strings_only (arrays w DEFAULT_SCOPES) \<Longrightarrow>
   \<forall>options \<in> set previous.
     strings_only (or_js (additionalScopes options) (JArr [JStr ''offline''])) \<Longrightarrow>
   list_all strings_only (arrays (construct_all previous w) DEFAULT_SCOPES)"
  by (induction previous arbitrary: w) (simp_all add: new_OAuthManager_arrays)

lemma join_head:
  "xs \<noteq> [] \<Longrightarrow> join (JStr s # xs) sep = Inr joined \<Longrightarrow> \<exists>rest. joined = s @ sep @ rest"
  by (cases xs) (auto simp add: join_def thenE_def split: sum.splits)

lemma collect_all:
  "\<forall>r \<in> set rs. \<exists>v. r = Inr v \<Longrightarrow> \<exists>vs. collect rs = Inr vs"
  by (induction rs) (auto simp add: thenE_def)

lemma toString_is_string: "is_string x \<Longrightarrow> \<exists>s. toString x = Inr s"
  by (cases x) simp_all

lemma toString_strings_only: "strings_only v \<Longrightarrow> \<exists>s. toString v = Inr s"
proof (cases v)
  case (JArr xs)
  assume "strings_only v"
  with JArr have "\<forall>x \<in> set xs. is_string x" by (simp add: list_all_iff)
  then have "\<forall>x \<in> set xs. \<exists>s. toString x = Inr s"
    using toString_is_string by blast
  then have "\<forall>r \<in> set (map (\<lambda>x. if x = JUndefined \<or> x = JNull then Inr [] else toString x) xs).
      \<exists>s. r = Inr s"
    by auto
  then obtain ss where
    "collect (map (\<lambda>x. if x = JUndefined \<or> x = JNull then Inr [] else toString x) xs) = Inr ss"
    using collect_all by blast
  with JArr show ?thesis by (simp add: thenE_def)
qed simp_all

lemma join_strings_only: "list_all strings_only xs \<Longrightarrow> \<exists>joined. join xs sep = Inr joined"
proof -
  assume "list_all strings_only xs"
  then have "\<forall>r \<in> set (map (\<lambda>x. if x = JUndefined \<or> x = JNull then Inr [] else toString x) xs).
      \<exists>s. r = Inr s"
    using toString_strings_only by (auto simp add: list_all_iff)
  then obtain ss where
    "collect (map (\<lambda>x. if x = JUndefined \<or> x = JNull then Inr [] else toString x) xs) = Inr ss"
    using collect_all by blast
  then show ?thesis by (simp add: join_def thenE_def)
qed

lemma scope_fixed:
  "\<forall>r \<in> set (requests_since (snd mw) (snd (run cs mw))).
      join (arrays (snd mw) (scopes (fst mw))) '' '' = Inr (scope r)"
proof -
  obtain added where a:
    "performed (snd (run cs mw)) = performed (snd mw) @ added"
    "\<forall>x \<in> set added. join (arrays (snd mw) (scopes (fst mw))) '' '' = Inr (scope (snd (snd x)))"
    using run_performed [of cs mw] by blast
  show ?thesis
    using a(2) by (auto simp add: requests_since_run [OF a(1)])
qed

text \<open>
  C1, as the code has it. The scope of every authorization request a manager builds is the
  join, with a space, of the array its \<open>scopes\<close> refers to. No call of a flow and no
  notification changes that array, so every request built over any sequence of them
  carries the same scope string as the first: repeated sign-in calls add no scope. The
  array is joined as it is, without removing duplicates.
\<close>

theorem scope_fixed_across_sign_ins:
  "arrays (snd (run cs mw)) (scopes (fst (run cs mw))) = arrays (snd mw) (scopes (fst mw)) \<and>
   (\<forall>r \<in> set (requests_since (snd mw) (snd (run cs mw))).
      join (arrays (snd mw) (scopes (fst mw))) '' '' = Inr (scope r))"
proof -
  obtain added where a:
    "performed (snd (run cs mw)) = performed (snd mw) @ added"
    "\<forall>x \<in> set added. join (arrays (snd mw) (scopes (fst mw))) '' '' = Inr (scope (snd (snd x)))"
    using run_performed [of cs mw] by blast
  show ?thesis
    using a(2) by (auto simp add: run_arrays run_scopes requests_since_run [OF a(1)])
qed

theorem scope_fixed_across_sign_ins_witness:
  "map scope
     (requests_since (snd (new_OAuthManager client_options module_loaded))
        (snd (run [SignInPopup,
                   Notify client_request (Some \<lparr> code = ''abc'', response_state = ''s'' \<rparr>) None,
                   SignInRedirect]
               (new_OAuthManager client_options module_loaded)))) =
     [''openid offline'', ''openid offline'']"
  using scope_fixed_across_sign_ins
    [of "[SignInPopup,
          Notify client_request (Some \<lparr> code = ''abc'', response_state = ''s'' \<rparr>) None,
          SignInRedirect]"
        "new_OAuthManager client_options module_loaded"]
  by (simp add: flow_defs notify_defs new_OAuthManager_def module_loaded_def client_options_def
      requests_since_def join_def or_js_def DEFAULT_SCOPES_def thenE_def)

text \<open>
  C1 as stated fails: nothing removes duplicates. A manager constructed, as the first one
  after the module is loaded, with the additional scopes \<^verbatim>\<open>['openid']\<close> builds requests
  whose scope is \<^verbatim>\<open>openid openid\<close>.
\<close>

theorem scope_not_deduplicated:
  "map scope
     (requests_since
        (snd (new_OAuthManager (client_options\<lparr> additionalScopes := JArr [JStr ''openid''] \<rparr>)
                module_loaded))
        (snd (run [SignInPopup]
               (new_OAuthManager (client_options\<lparr> additionalScopes := JArr [JStr ''openid''] \<rparr>)
                  module_loaded)))) =
     [''openid openid'']"
  by (simp add: flow_defs new_OAuthManager_def module_loaded_def client_options_def
      requests_since_def join_def or_js_def DEFAULT_SCOPES_def thenE_def)

text \<open>
  The array is shared: the constructor appends to the module's array, so the second manager
  constructed with the default options requests \<^verbatim>\<open>offline\<close> twice.
\<close>

lemma scope_after_second_construction:
  "map scope
     (requests_since
        (snd (new_OAuthManager client_options (construct_all [client_options] module_loaded)))
        (snd (run [SignInPopup]
               (new_OAuthManager client_options
                  (construct_all [client_options] module_loaded))))) =
     [''openid offline offline'']"
  by (simp add: flow_defs new_OAuthManager_def module_loaded_def client_options_def
      requests_since_def join_def or_js_def DEFAULT_SCOPES_def thenE_def)

text \<open>
  C7. For every manager, constructed after any number of others and with any options
  (\<^verbatim>\<open>additionalScopes: []\<close> included), and after any calls of its flows and notifications:
  the array its \<open>scopes\<close> refers to contains \<^verbatim>\<open>openid\<close>, and the scope of the request it
  builds, and of every request it has handed to a handler, begins with \<^verbatim>\<open>openid\<close> followed
  by a space. It does build a request whenever the additional scopes of every manager
  constructed so far were of the documented kind, strings or arrays of strings (or left
  to the default); otherwise joining the scopes may throw, and then there is no request.
\<close>

theorem scope_contains_openid:
  "mw = new_OAuthManager options (construct_all previous module_loaded) \<Longrightarrow>
   JStr ''openid'' \<in> set (arrays (snd (run cs mw)) (scopes (fst (run cs mw)))) \<and>
   (\<forall>r w'. createAuthRequest (fst (run cs mw)) (snd (run cs mw)) = Inr (r, w') \<longrightarrow>
      (\<exists>rest. scope r = ''openid '' @ rest)) \<and>
   (\<forall>r \<in> set (requests_since (snd mw) (snd (run cs mw))). \<exists>rest. scope r = ''openid '' @ rest) \<and>
   ((\<forall>given \<in> set (options # previous).
       strings_only (or_js (additionalScopes given) (JArr [JStr ''offline'']))) \<longrightarrow>
    (\<exists>r w'. createAuthRequest (fst (run cs mw)) (snd (run cs mw)) = Inr (r, w')))"
proof -
  assume mw: "mw = new_OAuthManager options (construct_all previous module_loaded)"
  have "arrays module_loaded DEFAULT_SCOPES = JStr ''openid'' # []"
    by (simp add: module_loaded_def)
  then obtain ys where ys:
    "arrays (construct_all previous module_loaded) DEFAULT_SCOPES = JStr ''openid'' # ys"
    using construct_all_head by blast
  have sc: "scopes (fst mw) = DEFAULT_SCOPES"
    using mw by (simp add: new_OAuthManager_def Let_def)
  have ar: "arrays (snd mw) (scopes (fst mw)) =
      JStr ''openid'' # (ys @ [or_js (additionalScopes options) (JArr [JStr ''offline''])])"
    using mw sc ys by (simp add: new_OAuthManager_arrays)
  have j: "\<And>joined. join (arrays (snd mw) (scopes (fst mw))) '' '' = Inr joined \<Longrightarrow>
      \<exists>rest. joined = ''openid '' @ rest"
    unfolding ar using join_head [of "ys @ [or_js (additionalScopes options) (JArr [JStr ''offline''])]"
        "''openid''" "'' ''"] by auto
  note f = scope_fixed [of mw cs]
  have 1: "JStr ''openid'' \<in> set (arrays (snd (run cs mw)) (scopes (fst (run cs mw))))"
    using ar by (simp add: run_arrays run_scopes)
  have 2: "\<forall>r w'. createAuthRequest (fst (run cs mw)) (snd (run cs mw)) = Inr (r, w') \<longrightarrow>
      (\<exists>rest. scope r = ''openid '' @ rest)"
    using j by (auto simp add: createAuthRequest_def run_arrays run_scopes thenE_def
        split: sum.splits)
  have 3: "\<forall>r \<in> set (requests_since (snd mw) (snd (run cs mw))). \<exists>rest. scope r = ''openid '' @ rest"
    using f j by blast
  have 4: "(\<forall>given \<in> set (options # previous).
       strings_only (or_js (additionalScopes given) (JArr [JStr ''offline'']))) \<longrightarrow>
    (\<exists>r w'. createAuthRequest (fst (run cs mw)) (snd (run cs mw)) = Inr (r, w'))"
  proof
    assume g: "\<forall>given \<in> set (options # previous).
       strings_only (or_js (additionalScopes given) (JArr [JStr ''offline'']))"
    have "list_all strings_only (arrays module_loaded DEFAULT_SCOPES)"
      by (simp add: module_loaded_def)
    then have "list_all strings_only (arrays (construct_all previous module_loaded) DEFAULT_SCOPES)"
      using g construct_all_strings by simp
    then have "list_all strings_only (arrays (snd mw) (scopes (fst mw)))"
      using g mw sc by (simp add: new_OAuthManager_arrays)
    then obtain joined where "join (arrays (snd mw) (scopes (fst mw))) '' '' = Inr joined"
      using join_strings_only by blast
    then show "\<exists>r w'. createAuthRequest (fst (run cs mw)) (snd (run cs mw)) = Inr (r, w')"
      by (simp add: createAuthRequest_def run_arrays run_scopes thenE_def)
  qed
  show ?thesis using 1 2 3 4 by blast
qed

theorem scope_contains_openid_witness:
  "map scope
     (requests_since
        (snd (new_OAuthManager (client_options\<lparr> additionalScopes := JArr [] \<rparr>)
                (construct_all [] module_loaded)))
        (snd (run [SignInPopup]
               (new_OAuthManager (client_options\<lparr> additionalScopes := JArr [] \<rparr>)
                  (construct_all [] module_loaded))))) =
     [''openid '']"
  using scope_contains_openid
    [of "new_OAuthManager (client_options\<lparr> additionalScopes := JArr [] \<rparr>)
           (construct_all [] module_loaded)"
        "client_options\<lparr> additionalScopes := JArr [] \<rparr>" "[]" "[SignInPopup]"]
  by (simp add: flow_defs new_OAuthManager_def module_loaded_def client_options_def
      requests_since_def join_def or_js_def DEFAULT_SCOPES_def thenE_def)

subsection \<open>Authorization requests\<close>

text \<open>
  C8, as the code has it. Every call of \<open>signInPopup\<close> or \<open>signInRedirect\<close> constructs one
  new request and hands it to the handler once (none when joining the scopes throws);
  over any sequence of calls the requests are distinct objects, none of them one that
  existed before. Each is constructed with PKCE turned off (the flag \<open>usePkce\<close> is false),
  with no crypto argument and no extras: it carries no code verifier and no code
  challenge.
\<close>

theorem sign_in_requests_fresh:
  "distinct (map request_id (requests_since (snd mw) (snd (run cs mw)))) \<and>
   (\<forall>r \<in> set (requests_since (snd mw) (snd (run cs mw))).
      next_object (snd mw) \<le> request_id r \<and> \<not> usePkce r \<and> extras r = None \<and> crypto r = None) \<and>
   length (requests_since (snd mw) (snd (exec SignInPopup mw))) =
     (case join (arrays (snd mw) (scopes (fst mw))) '' '' of Inr joined \<Rightarrow> 1 | Inl t \<Rightarrow> 0) \<and>
   length (requests_since (snd mw) (snd (exec SignInRedirect mw))) =
     (case join (arrays (snd mw) (scopes (fst mw))) '' '' of Inr joined \<Rightarrow> 1 | Inl t \<Rightarrow> 0)"
proof -
  obtain added where a:
    "performed (snd (run cs mw)) = performed (snd mw) @ added"
    "\<forall>x \<in> set added. \<not> usePkce (snd (snd x)) \<and> extras (snd (snd x)) = None \<and>
        crypto (snd (snd x)) = None \<and> next_object (snd mw) \<le> request_id (snd (snd x))"
    "distinct (map (\<lambda>x. request_id (snd (snd x))) added)"
    using run_performed [of cs mw] by blast
  have d: "distinct (map request_id (requests_since (snd mw) (snd (run cs mw))))"
    using a(3) by (simp add: requests_since_run [OF a(1)] comp_def)
  have p: "\<forall>r \<in> set (requests_since (snd mw) (snd (run cs mw))).
      next_object (snd mw) \<le> request_id r \<and> \<not> usePkce r \<and> extras r = None \<and> crypto r = None"
    using a(2) by (auto simp add: requests_since_run [OF a(1)])
  have l: "length (requests_since (snd mw) (snd (exec SignInPopup mw))) =
     (case join (arrays (snd mw) (scopes (fst mw))) '' '' of Inr joined \<Rightarrow> 1 | Inl t \<Rightarrow> 0)"
    "length (requests_since (snd mw) (snd (exec SignInRedirect mw))) =
     (case join (arrays (snd mw) (scopes (fst mw))) '' '' of Inr joined \<Rightarrow> 1 | Inl t \<Rightarrow> 0)"
    by (cases mw; simp add: requests_since_def flow_defs thenE_def split: sum.splits)+
  show ?thesis using d p l by blast
qed

theorem sign_in_requests_fresh_witness:
  "map request_id
     (requests_since (snd (new_OAuthManager client_options module_loaded)) (snd (run [SignInPopup, SignInRedirect] (new_OAuthManager client_options module_loaded)))) =
     [1, 3]"
  using sign_in_requests_fresh [of "new_OAuthManager client_options module_loaded" "[SignInPopup, SignInRedirect]"]
  by (simp add: flow_defs new_OAuthManager_def module_loaded_def client_options_def
      requests_since_def join_def or_js_def DEFAULT_SCOPES_def thenE_def)

text \<open>
  C8 as stated fails: the requests of a popup sign-in and of a redirect sign-in are built
  with \<open>usePkce\<close> false and without extras, so no code verifier is generated for them.
\<close>

theorem sign_in_request_without_pkce:
  "map (\<lambda>r. (usePkce r, extras r, crypto r))
     (requests_since (snd (new_OAuthManager client_options module_loaded)) (snd (run [SignInPopup, SignInRedirect] (new_OAuthManager client_options module_loaded)))) =
     [(False, None, None), (False, None, None)]"
  by (simp add: flow_defs new_OAuthManager_def module_loaded_def client_options_def
      requests_since_def join_def or_js_def DEFAULT_SCOPES_def thenE_def)

end
